theory Spec2Isabelle
  imports Main
begin

section \<open>Python strings\<close>

text \<open>
  A Python \<open>str\<close> is a sequence of Unicode code points, so \<open>len\<close> counts code points
  and a file name such as the two Chinese characters U+62A5 U+544A followed by \<open>.pdf\<close>
  has length 6. A \<open>bytes\<close> object is a sequence of numbers below 256.
\<close>

type_synonym pystr = "nat list"
type_synonym pybytes = "nat list"

definition lit :: "string \<Rightarrow> pystr" where
  "lit s = map of_char s"

text \<open>\<open>str.isspace\<close> for one code point: the code points CPython lists as whitespace.\<close>

definition is_space :: "nat \<Rightarrow> bool" where
  "is_space c \<longleftrightarrow>
     (9 \<le> c \<and> c \<le> 13) \<or> (28 \<le> c \<and> c \<le> 32) \<or> c = 133 \<or> c = 160 \<or> c = 5760 \<or>
     (8192 \<le> c \<and> c \<le> 8202) \<or> c = 8232 \<or> c = 8233 \<or> c = 8239 \<or> c = 8287 \<or> c = 12288"

text \<open>\<open>s.strip()\<close>: leading and trailing whitespace removed.\<close>

definition py_strip :: "pystr \<Rightarrow> pystr" where
  "py_strip s = rev (dropWhile is_space (rev (dropWhile is_space s)))"

text \<open>\<open>sep.join(xs)\<close>.\<close>

fun py_join :: "pystr \<Rightarrow> pystr list \<Rightarrow> pystr" where
  "py_join sep [] = []"
| "py_join sep [x] = x"
| "py_join sep (x # y # ys) = x @ sep @ py_join sep (y # ys)"

text \<open>\<open>s.endswith(suf)\<close>.\<close>

definition endswith :: "pystr \<Rightarrow> pystr \<Rightarrow> bool" where
  "endswith s suf \<longleftrightarrow> length suf \<le> length s \<and> drop (length s - length suf) s = suf"

text \<open>\<open>os.path.basename(p)\<close>: what follows the last slash.\<close>

definition basename :: "pystr \<Rightarrow> pystr" where
  "basename p = rev (takeWhile (\<lambda>c. c \<noteq> 47) (rev p))"

text \<open>\<open>os.path.join(a, b)\<close> for two components.\<close>

definition path_join :: "pystr \<Rightarrow> pystr \<Rightarrow> pystr" where
  "path_join a b =
     (if b \<noteq> [] \<and> hd b = 47 then b
      else if a = [] \<or> last a = 47 then a @ b
      else a @ [47] @ b)"

text \<open>
  \<open>s.lower()\<close>. On an ASCII string it maps \<open>A\<close>..\<open>Z\<close> to \<open>a\<close>..\<open>z\<close>. On any other
  string it follows the Unicode case tables, which are not part of this program: they
  are the parameter \<open>ulower\<close>.
\<close>

definition ascii_lower :: "nat \<Rightarrow> nat" where
  "ascii_lower c = (if 65 \<le> c \<and> c \<le> 90 then c + 32 else c)"

definition py_lower :: "(pystr \<Rightarrow> pystr) \<Rightarrow> pystr \<Rightarrow> pystr" where
  "py_lower ulower s = (if list_all (\<lambda>c. c < 128) s then map ascii_lower s else ulower s)"

text \<open>\<open>s.split(',')\<close>: never empty, the pieces between the commas.\<close>

fun split_comma :: "pystr \<Rightarrow> pystr list" where
  "split_comma [] = [[]]"
| "split_comma (c # cs) =
     (if c = 44 then [] # split_comma cs
      else (case split_comma cs of
              [] \<Rightarrow> [[c]]
            | piece # pieces \<Rightarrow> (c # piece) # pieces))"

text \<open>\<open>xs[:n]\<close>: a negative \<open>n\<close> counts from the end.\<close>

definition slice_to :: "'a list \<Rightarrow> int \<Rightarrow> 'a list" where
  "slice_to xs n = (if 0 \<le> n then take (nat n) xs else take (nat (int (length xs) + n)) xs)"

section \<open>Exceptions\<close>

text \<open>
  The exception classes the program can meet, all of them subclasses of \<open>Exception\<close>.
  \<open>SMTPAuthenticationError\<close> is a subclass of \<open>SMTPException\<close>; the constructor
  \<open>SMTPException\<close> stands for every other member of that class, and \<open>OtherError\<close>
  for every \<open>Exception\<close> that is none of the named ones. Interrupts
  (\<open>KeyboardInterrupt\<close>, \<open>SystemExit\<close>) are not \<open>Exception\<close>s and are not modelled.
\<close>

datatype py_exn =
    SMTPAuthenticationError
  | SMTPException
  | OSError
  | KeyError
  | IndexError
  | ValueError
  | TypeError
  | UnicodeEncodeError
  | OtherError

section \<open>Percent-encoding (\<open>urllib.parse.quote\<close>)\<close>

text \<open>
  \<open>str.encode('utf-8')\<close> in strict mode: a surrogate code point raises
  \<open>UnicodeEncodeError\<close>. A Python string holds no code point from \<open>0x110000\<close> on;
  the model answers with the same error there.
\<close>

definition utf8_encode_cp :: "nat \<Rightarrow> py_exn + pybytes" where
  "utf8_encode_cp c =
     (if c < 128 then Inr [c]
      else if c < 2048 then Inr [192 + c div 64, 128 + c mod 64]
      else if c < 65536 then
        (if 55296 \<le> c \<and> c \<le> 57343 then Inl UnicodeEncodeError
         else Inr [224 + c div 4096, 128 + (c div 64) mod 64, 128 + c mod 64])
      else if c < 1114112 then
        Inr [240 + c div 262144, 128 + (c div 4096) mod 64, 128 + (c div 64) mod 64,
             128 + c mod 64]
      else Inl UnicodeEncodeError)"

fun utf8_encode :: "pystr \<Rightarrow> py_exn + pybytes" where
  "utf8_encode [] = Inr []"
| "utf8_encode (c # cs) =
     (case utf8_encode_cp c of
        Inl e \<Rightarrow> Inl e
      | Inr bs \<Rightarrow> (case utf8_encode cs of Inl e \<Rightarrow> Inl e | Inr rest \<Rightarrow> Inr (bs @ rest)))"

text \<open>The strings \<open>str.encode('utf-8')\<close> accepts: those without a surrogate.\<close>

definition encodable :: "pystr \<Rightarrow> bool" where
  "encodable s \<longleftrightarrow> list_all (\<lambda>c. c < 1114112 \<and> \<not> (55296 \<le> c \<and> c \<le> 57343)) s"

text \<open>
  The strings \<open>MIMEText(s, 'html', 'utf-8')\<close> accepts. The payload is encoded with the
  error handler \<open>surrogateescape\<close>: the surrogates U+DC80 to U+DCFF pass as the bytes
  they stand for, any other surrogate raises \<open>UnicodeEncodeError\<close>.
\<close>

definition mime_text_ok :: "pystr \<Rightarrow> bool" where
  "mime_text_ok s \<longleftrightarrow>
     list_all (\<lambda>c. c < 1114112 \<and> (c < 55296 \<or> 57343 < c \<or> (56448 \<le> c \<and> c \<le> 56575))) s"

text \<open>The characters \<open>quote\<close> never escapes: letters, digits and \<open>_ . - ~\<close>.\<close>

definition always_safe :: "nat \<Rightarrow> bool" where
  "always_safe b \<longleftrightarrow>
     (65 \<le> b \<and> b \<le> 90) \<or> (97 \<le> b \<and> b \<le> 122) \<or> (48 \<le> b \<and> b \<le> 57) \<or>
     b = 95 \<or> b = 46 \<or> b = 45 \<or> b = 126"

definition hex_digit :: "nat \<Rightarrow> nat" where
  "hex_digit d = (if d < 10 then 48 + d else 55 + d)"

text \<open>One byte of \<open>quote_from_bytes\<close>: itself when safe, else \<open>%XX\<close> in upper case.\<close>

definition quote_byte :: "pystr \<Rightarrow> nat \<Rightarrow> pystr" where
  "quote_byte safe b =
     (if always_safe b \<or> b \<in> set safe then [b]
      else [37, hex_digit (b div 16), hex_digit (b mod 16)])"

text \<open>\<open>quote(s, safe)\<close> on a string: UTF-8, then byte by byte.\<close>

definition url_quote_safe :: "pystr \<Rightarrow> pystr \<Rightarrow> py_exn + pystr" where
  "url_quote_safe safe s =
     (if s = [] then Inr []
      else (case utf8_encode s of
              Inl e \<Rightarrow> Inl e
            | Inr bs \<Rightarrow> Inr (concat (map (quote_byte safe) bs))))"

text \<open>\<open>quote(s)\<close>: the default safe set is the slash.\<close>

definition url_quote :: "pystr \<Rightarrow> py_exn + pystr" where
  "url_quote s = url_quote_safe [47] s"

section \<open>\<open>str.format\<close> with the one keyword \<open>filename\<close>\<close>

text \<open>
  \<open>template.format(filename=v)\<close>, read from left to right as Python does: \<open>{{\<close> and
  \<open>}}\<close> are braces, a lone \<open>}\<close> or an unclosed \<open>{\<close> raises \<open>ValueError\<close>, and a
  field \<open>{name}\<close> is looked up: \<open>filename\<close> is the keyword, an empty or numeric name
  asks for a positional argument there is none of (\<open>IndexError\<close>), any other plain
  ASCII name is a missing keyword (\<open>KeyError\<close>). A field with a conversion, a format
  specification, an attribute or an index (one of \<open>! : . [ ]\<close> in it), with a
  non-ASCII name or with a number beyond a machine word is outside this fragment:
  the answer is \<open>FmtRich\<close>, and the caller takes the result from a parameter.
\<close>

datatype fmt_result = FmtOk pystr | FmtRaise py_exn | FmtRich

definition is_digit :: "nat \<Rightarrow> bool" where
  "is_digit c \<longleftrightarrow> 48 \<le> c \<and> c \<le> 57"

definition digits_value :: "pystr \<Rightarrow> nat" where
  "digits_value ds = foldl (\<lambda>acc d. 10 * acc + (d - 48)) 0 ds"

definition rich_char :: "nat \<Rightarrow> bool" where
  "rich_char c \<longleftrightarrow> c = 33 \<or> c = 58 \<or> c = 46 \<or> c = 91 \<or> c = 93 \<or> 128 \<le> c"

definition lookup_field :: "pystr \<Rightarrow> pystr \<Rightarrow> fmt_result" where
  "lookup_field name v =
     (if name = lit ''filename'' then FmtOk v
      else if list_ex rich_char name then FmtRich
      else if list_all is_digit name then
        (if digits_value name \<le> 9223372036854775807 then FmtRaise IndexError else FmtRich)
      else FmtRaise KeyError)"

definition fmt_prepend :: "pystr \<Rightarrow> fmt_result \<Rightarrow> fmt_result" where
  "fmt_prepend s r = (case r of FmtOk t \<Rightarrow> FmtOk (s @ t) | _ \<Rightarrow> r)"

fun fmt_text :: "pystr \<Rightarrow> pystr \<Rightarrow> fmt_result"
  and fmt_field :: "pystr \<Rightarrow> pystr \<Rightarrow> pystr \<Rightarrow> fmt_result" where
  "fmt_text v [] = FmtOk []"
| "fmt_text v (c # cs) =
     (if c = 123 then
        (case cs of
           [] \<Rightarrow> FmtRaise ValueError
         | d # ds \<Rightarrow> if d = 123 then fmt_prepend [123] (fmt_text v ds) else fmt_field v [] cs)
      else if c = 125 then
        (case cs of
           [] \<Rightarrow> FmtRaise ValueError
         | d # ds \<Rightarrow> if d = 125 then fmt_prepend [125] (fmt_text v ds) else FmtRaise ValueError)
      else fmt_prepend [c] (fmt_text v cs))"
| "fmt_field v name [] = FmtRaise ValueError"
| "fmt_field v name (c # cs) =
     (if c = 125 then
        (case lookup_field name v of
           FmtOk s \<Rightarrow> fmt_prepend s (fmt_text v cs)
         | r \<Rightarrow> r)
      else if c = 123 then (if list_ex rich_char name then FmtRich else FmtRaise ValueError)
      else fmt_field v (name @ [c]) cs)"

definition py_format :: "(pystr \<Rightarrow> pystr \<Rightarrow> py_exn + pystr) \<Rightarrow> pystr \<Rightarrow> pystr \<Rightarrow> py_exn + pystr" where
  "py_format rich template v =
     (case fmt_text v template of
        FmtOk s \<Rightarrow> Inr s
      | FmtRaise e \<Rightarrow> Inl e
      | FmtRich \<Rightarrow> rich template v)"

section \<open>Messages, effects and the outside world\<close>

text \<open>The MIME objects \<open>send_email\<close> builds with the \<open>email\<close> package.\<close>

datatype payload = RawPayload pybytes | Base64Payload pybytes

text \<open>
  A parameter value handed to \<open>add_header\<close>: a string, or the triple
  \<open>(charset, language, value)\<close> of an RFC 2231 parameter.
\<close>

datatype header_param = Plain pystr | Rfc2231 pystr pystr pystr

record mime_part =
  p_maintype :: string
  p_subtype :: string
  p_payload :: payload
  p_disposition :: string
  p_params :: "(string \<times> header_param) list"

record mime_message =
  m_from :: pystr
  m_to :: pystr
  m_subject :: pystr
  m_body :: pystr
  m_body_subtype :: string
  m_body_charset :: string
  m_attachments :: "mime_part list"

text \<open>
  What the program prints: every warning and failure message, the closing lines of a
  stage, and every line that shows a string of the run (a file name, a directory, a
  subject, the recipients, the model, the summary). The lines that hold only fixed
  text and numbers (separators, page counts, character counts, token counts, the
  progress counter) are left out: they are always written.
\<close>

datatype message =
    MsgNoPyPDF2
  | MsgReadingPdf pystr
  | MsgPdfReadFailed py_exn
  | MsgClientMissing
  | MsgTextTooShort
  | MsgModel pystr
  | MsgSummaryError py_exn
  | MsgProcessing pystr
  | MsgExtractFailed
  | MsgSummarizeFailed
  | MsgSentOk
  | MsgSendFailed
  | MsgSummaryDone
  | MsgSummaryText pystr
  | MsgAttachmentMissing pystr
  | MsgMailSent pystr
  | MsgRecipients pystr
  | MsgAuthFailed
  | MsgSmtpError py_exn
  | MsgSendError py_exn
  | MsgScanning pystr
  | MsgNoPdfFound
  | MsgLimit int
  | MsgProcessError py_exn
  | MsgStats nat nat nat
  | MsgAzureNotConfigured
  | MsgEmailIncomplete
  | MsgConfigLoadFailed
  | MsgNoApiKey
  | MsgFileNotFound pystr
  | MsgDirNotFound pystr
  | MsgDefaultDir pystr
  | MsgUsage

text \<open>
  The effects of a run, in the order they happen. An event of the relay or of the
  backend records that the call was made, whether or not it raised; \<open>EvPrint\<close> records a
  line that was written.
\<close>

datatype event =
    EvPrint message
  | EvChatCompletion pystr pystr pystr
  | EvSmtpOpen pystr int
  | EvSmtpSslOpen pystr int
  | EvStartTls
  | EvLogin pystr pystr
  | EvSendMessage mime_message
  | EvQuit
  | EvSleep nat

text \<open>The reply of the completion backend, as far as \<open>summarize_text\<close> reads it.\<close>

record completion =
  c_content :: "pystr option"
  c_model :: pystr
  c_prompt_tokens :: int
  c_completion_tokens :: int
  c_total_tokens :: int

text \<open>The fields the HTML body is filled with.\<close>

datatype size_str = KB nat | MB nat

record body_fields =
  bf_filename :: pystr
  bf_size :: size_str
  bf_time :: pystr
  bf_summary :: pystr
  bf_model_info :: "(pystr \<times> int \<times> int \<times> int) option"

text \<open>
  Everything outside the program: the optional libraries, the file system, the PDF
  reader, the completion backend, the mail relay, the clock and the configuration
  loader. Each field answers one library call; a call that can raise answers with a
  sum (\<open>Inl\<close> the exception) or with \<open>Some\<close> exception.
  \<^item> \<open>pdf_open p\<close>: \<open>open(p, 'rb')\<close> and \<open>PdfReader\<close>; the pages, each with the
    result of its \<open>extract_text()\<close>.
  \<^item> \<open>chat_create model system user\<close>: \<open>client.chat.completions.create\<close> and the
    reading of its reply.
  \<^item> \<open>fs_walk d\<close>: \<open>os.walk(d)\<close>, the pairs of a directory and its files in
    traversal order.
  \<^item> \<open>render_html\<close>: the HTML template of \<open>create_email_body\<close>, a fixed text
    around its fields.
  \<^item> \<open>format_rich\<close>, \<open>unicode_lower\<close>: \<open>str.format\<close> and \<open>str.lower\<close> outside the
    fragments modelled above.
  \<^item> \<open>stdout_strict\<close>: the standard output encodes in UTF-8, as the Chinese text and
    the emoji of every message need; it is strict (the default of a UTF-8 locale) or
    it has an error handler that writes any string.
  The world stays as it is during a run: the same call gets the same answer. The
  headers of a message are taken as they are; what the \<open>email\<close> package may raise on
  them when the message is serialized is part of \<open>smtp_send_message\<close>.
\<close>

record world =
  stdout_strict :: bool
  pypdf2_installed :: bool
  azure_installed :: bool
  pdf_open :: "pystr \<Rightarrow> py_exn + (py_exn + pystr) list"
  chat_create :: "pystr \<Rightarrow> pystr \<Rightarrow> pystr \<Rightarrow> py_exn + completion"
  fs_exists :: "pystr \<Rightarrow> bool"
  fs_getsize :: "pystr \<Rightarrow> py_exn + nat"
  fs_read :: "pystr \<Rightarrow> py_exn + pybytes"
  fs_walk :: "pystr \<Rightarrow> (pystr \<times> pystr list) list"
  smtp_connect :: "pystr \<Rightarrow> int \<Rightarrow> py_exn option"
  smtp_ssl_connect :: "pystr \<Rightarrow> int \<Rightarrow> py_exn option"
  smtp_starttls :: "py_exn option"
  smtp_login :: "pystr \<Rightarrow> pystr \<Rightarrow> py_exn option"
  smtp_send_message :: "mime_message \<Rightarrow> py_exn option"
  smtp_quit :: "py_exn option"
  clock :: pystr
  render_html :: "body_fields \<Rightarrow> pystr"
  format_rich :: "pystr \<Rightarrow> pystr \<Rightarrow> py_exn + pystr"
  unicode_lower :: "pystr \<Rightarrow> pystr"

text \<open>
  \<open>print\<close> of a line that shows the string \<open>s\<close>: on a strict standard output it raises
  \<open>UnicodeEncodeError\<close> when \<open>s\<close> holds a surrogate, as a file name with bytes that
  are not UTF-8 does. The text of an exception is taken to be printable: Python shows
  the string an encoding or file error is about in escaped form.
\<close>

definition printable :: "world \<Rightarrow> pystr \<Rightarrow> bool" where
  "printable w s = (if stdout_strict w then encodable s else True)"

section \<open>The objects of the program\<close>

record email_sender =
  es_smtp_server :: pystr
  es_smtp_port :: int
  es_sender_email :: pystr
  es_sender_password :: pystr
  es_use_tls :: bool

record azure_client =
  ac_api_key :: pystr
  ac_api_version :: pystr
  ac_endpoint :: pystr

record summarizer =
  sm_client :: "azure_client option"
  sm_deployment_name :: pystr
  sm_system_prompt :: pystr
  sm_email_sender :: "email_sender option"
  sm_receiver_emails :: "pystr list"
  sm_subject_template :: pystr

section \<open>Text extraction (\<open>extract_text_from_pdf\<close>)\<close>

text \<open>
  The page loop: the text of each page in turn, kept when it is not empty; the first
  page that raises ends the loop with its exception.
\<close>

fun read_pages :: "pystr list \<Rightarrow> (py_exn + pystr) list \<Rightarrow> py_exn + pystr list" where
  "read_pages text_content [] = Inr text_content"
| "read_pages text_content (page # pages) =
     (case page of
        Inl e \<Rightarrow> Inl e
      | Inr text \<Rightarrow>
          read_pages (if text \<noteq> [] then text_content @ [text] else text_content) pages)"

text \<open>
  The body of the \<open>try\<close>: open the file and count its pages, print the line that names
  the file, read the pages, join the texts. The lines printed before an exception stay
  printed.
\<close>

definition extract_body :: "world \<Rightarrow> pystr \<Rightarrow> int \<Rightarrow> (py_exn + pystr) \<times> event list" where
  "extract_body w pdf_path max_pages =
     (case pdf_open w pdf_path of
        Inl e \<Rightarrow> (Inl e, [])
      | Inr pages \<Rightarrow>
          (let total_pages = int (length pages);
               pages_to_read = min total_pages max_pages
           in if \<not> printable w (basename pdf_path) then (Inl UnicodeEncodeError, [])
              else
                (case read_pages [] (take (nat pages_to_read) pages) of
                   Inl e \<Rightarrow> (Inl e, [EvPrint (MsgReadingPdf (basename pdf_path))])
                 | Inr text_content \<Rightarrow>
                     (Inr (py_join [10, 10] text_content),
                      [EvPrint (MsgReadingPdf (basename pdf_path))]))))"

definition extract_text_from_pdf :: "world \<Rightarrow> pystr \<Rightarrow> int \<Rightarrow> pystr \<times> event list" where
  "extract_text_from_pdf w pdf_path max_pages =
     (if \<not> pypdf2_installed w then ([], [EvPrint MsgNoPyPDF2])
      else (case extract_body w pdf_path max_pages of
              (Inl e, evs) \<Rightarrow> ([], evs @ [EvPrint (MsgPdfReadFailed e)])
            | (Inr full_text, evs) \<Rightarrow> (full_text, evs)))"

definition default_max_pages :: int where
  "default_max_pages = 50"

section \<open>Summarization (\<open>summarize_text\<close>)\<close>

text \<open>The user message: a fixed Chinese sentence around the file name, then the text.\<close>

definition user_prompt :: "pystr \<Rightarrow> pystr \<Rightarrow> pystr" where
  "user_prompt filename text =
     [35831, 24635, 32467, 20197, 19979, 80, 68, 70, 25991, 26723, 30340, 20869, 23481,
      65288, 25991, 20214, 21517, 65306] @ filename @ [65289, 65306, 10, 10] @ text"

type_synonym model_info = "pystr \<times> int \<times> int \<times> int"

text \<open>
  The result is \<open>None\<close> or the pair of the summary and the usage figures. Inside the
  \<open>try\<close> the line that names the model is printed before the request is made. A reply
  whose content is \<open>None\<close> makes \<open>len(summary)\<close> raise \<open>TypeError\<close>.
\<close>

definition summarize_text ::
  "summarizer \<Rightarrow> world \<Rightarrow> pystr \<Rightarrow> pystr \<Rightarrow> (pystr \<times> model_info) option \<times> event list" where
  "summarize_text self w text filename =
     (case sm_client self of
        None \<Rightarrow> (None, [EvPrint MsgClientMissing])
      | Some client \<Rightarrow>
          if text = [] \<or> length (py_strip text) < 100 then (None, [EvPrint MsgTextTooShort])
          else if \<not> printable w (sm_deployment_name self) then
            (None, [EvPrint (MsgSummaryError UnicodeEncodeError)])
          else
            (let model_line = EvPrint (MsgModel (sm_deployment_name self));
                 call = EvChatCompletion (sm_deployment_name self) (sm_system_prompt self)
                          (user_prompt filename text)
             in case chat_create w (sm_deployment_name self) (sm_system_prompt self)
                       (user_prompt filename text) of
                  Inl e \<Rightarrow> (None, [model_line, call, EvPrint (MsgSummaryError e)])
                | Inr response \<Rightarrow>
                    (case c_content response of
                       None \<Rightarrow> (None, [model_line, call, EvPrint (MsgSummaryError TypeError)])
                     | Some summary \<Rightarrow>
                         (Some (summary, (c_model response, c_prompt_tokens response,
                                  c_completion_tokens response, c_total_tokens response)),
                          [model_line, call]))))"

section \<open>The mail sender (\<open>EmailSender.send_email\<close>)\<close>

text \<open>The MIME type of an attachment, by its file name.\<close>

definition mime_type_of :: "world \<Rightarrow> pystr \<Rightarrow> string \<times> string" where
  "mime_type_of w filename =
     (if endswith (py_lower (unicode_lower w) filename) (lit ''.pdf'')
      then (''application'', ''pdf'')
      else (''application'', ''octet-stream''))"

text \<open>
  The part built for one file: \<open>set_payload\<close>, then \<open>encode_base64\<close>, then the
  \<open>Content-Disposition\<close> header with its two file name parameters.
\<close>

definition encode_base64 :: "payload \<Rightarrow> payload" where
  "encode_base64 p = (case p of RawPayload bs \<Rightarrow> Base64Payload bs | Base64Payload bs \<Rightarrow> Base64Payload bs)"

definition attachment_part :: "string \<times> string \<Rightarrow> pybytes \<Rightarrow> pystr \<Rightarrow> pystr \<Rightarrow> mime_part" where
  "attachment_part ty content filename encoded_filename =
     \<lparr> p_maintype = fst ty, p_subtype = snd ty,
       p_payload = encode_base64 (RawPayload content),
       p_disposition = ''attachment'',
       p_params = [(''filename'', Rfc2231 (lit ''utf-8'') [] filename),
                   (''filename_ascii'', Plain encoded_filename)] \<rparr>"

text \<open>
  The attachment loop. A path that does not exist is reported and passed over. A file
  that cannot be read, a name that cannot be encoded and a warning that cannot be
  printed raise out of the loop.
\<close>

fun attach_files ::
  "world \<Rightarrow> mime_message \<Rightarrow> pystr list \<Rightarrow> (py_exn + mime_message) \<times> event list" where
  "attach_files w msg [] = (Inr msg, [])"
| "attach_files w msg (file_path # rest) =
     (if fs_exists w file_path then
        (let filename = basename file_path;
             ty = mime_type_of w filename
         in case fs_read w file_path of
              Inl e \<Rightarrow> (Inl e, [])
            | Inr content \<Rightarrow>
                (case url_quote filename of
                   Inl e \<Rightarrow> (Inl e, [])
                 | Inr encoded_filename \<Rightarrow>
                     attach_files w
                       (msg\<lparr>m_attachments :=
                              m_attachments msg @
                                [attachment_part ty content filename encoded_filename]\<rparr>)
                       rest))
      else if \<not> printable w file_path then (Inl UnicodeEncodeError, [])
      else
        (case attach_files w msg rest of
           (r, evs) \<Rightarrow> (r, EvPrint (MsgAttachmentMissing file_path) # evs)))"

text \<open>
  The message before the relay is contacted: headers, HTML body, attachments. The
  body part is \<open>MIMEText(body, 'html', 'utf-8')\<close>, which raises on a body it cannot
  encode.
\<close>

definition compose_message ::
  "email_sender \<Rightarrow> world \<Rightarrow> pystr list \<Rightarrow> pystr \<Rightarrow> pystr \<Rightarrow> pystr list option \<Rightarrow>
     (py_exn + mime_message) \<times> event list" where
  "compose_message self w receiver_emails subject body attachments =
     (let msg = \<lparr> m_from = es_sender_email self,
                   m_to = py_join (lit '', '') receiver_emails,
                   m_subject = subject,
                   m_body = body, m_body_subtype = ''html'', m_body_charset = ''utf-8'',
                   m_attachments = [] \<rparr>
      in if \<not> mime_text_ok body then (Inl UnicodeEncodeError, [])
         else
           (case attachments of
              None \<Rightarrow> (Inr msg, [])
            | Some paths \<Rightarrow> if paths = [] then (Inr msg, []) else attach_files w msg paths))"

text \<open>Calls made one after the other until one raises.\<close>

fun run_steps :: "(event \<times> py_exn option) list \<Rightarrow> (py_exn + unit) \<times> event list" where
  "run_steps [] = (Inr (), [])"
| "run_steps ((ev, r) # rest) =
     (case r of
        Some e \<Rightarrow> (Inl e, [ev])
      | None \<Rightarrow> (case run_steps rest of (res, evs) \<Rightarrow> (res, ev # evs)))"

text \<open>
  The session with the relay: connect (and upgrade) or connect over TLS, log in, send,
  quit. Each call is paired with what the relay answers to it.
\<close>

definition session_steps :: "email_sender \<Rightarrow> world \<Rightarrow> mime_message \<Rightarrow> (event \<times> py_exn option) list" where
  "session_steps self w msg =
     (if es_use_tls self then
        [(EvSmtpOpen (es_smtp_server self) (es_smtp_port self),
            smtp_connect w (es_smtp_server self) (es_smtp_port self)),
         (EvStartTls, smtp_starttls w)]
      else
        [(EvSmtpSslOpen (es_smtp_server self) (es_smtp_port self),
            smtp_ssl_connect w (es_smtp_server self) (es_smtp_port self))]) @
     [(EvLogin (es_sender_email self) (es_sender_password self),
         smtp_login w (es_sender_email self) (es_sender_password self)),
      (EvSendMessage msg, smtp_send_message w msg),
      (EvQuit, smtp_quit w)]"

definition smtp_session :: "email_sender \<Rightarrow> world \<Rightarrow> mime_message \<Rightarrow> (py_exn + unit) \<times> event list" where
  "smtp_session self w msg = run_steps (session_steps self w msg)"

text \<open>The three \<open>except\<close> clauses, in their order.\<close>

definition failure_message :: "py_exn \<Rightarrow> message" where
  "failure_message e =
     (if e = SMTPAuthenticationError then MsgAuthFailed
      else if e = SMTPException then MsgSmtpError e
      else MsgSendError e)"

text \<open>
  The two closing lines, still inside the \<open>try\<close>: the subject, then the recipients.
\<close>

definition success_lines :: "world \<Rightarrow> pystr list \<Rightarrow> pystr \<Rightarrow> (py_exn + unit) \<times> event list" where
  "success_lines w receiver_emails subject =
     (if \<not> printable w subject then (Inl UnicodeEncodeError, [])
      else if \<not> printable w (py_join (lit '', '') receiver_emails) then
        (Inl UnicodeEncodeError, [EvPrint (MsgMailSent subject)])
      else
        (Inr (),
         [EvPrint (MsgMailSent subject),
          EvPrint (MsgRecipients (py_join (lit '', '') receiver_emails))]))"

definition send_email ::
  "email_sender \<Rightarrow> world \<Rightarrow> pystr list \<Rightarrow> pystr \<Rightarrow> pystr \<Rightarrow> pystr list option \<Rightarrow>
     bool \<times> event list" where
  "send_email self w receiver_emails subject body attachments =
     (case compose_message self w receiver_emails subject body attachments of
        (Inl e, evs) \<Rightarrow> (False, evs @ [EvPrint (failure_message e)])
      | (Inr msg, evs) \<Rightarrow>
          (case smtp_session self w msg of
             (Inl e, evs') \<Rightarrow> (False, evs @ evs' @ [EvPrint (failure_message e)])
           | (Inr u, evs') \<Rightarrow>
               (case success_lines w receiver_emails subject of
                  (Inl e, evs'') \<Rightarrow>
                    (False, evs @ evs' @ evs'' @ [EvPrint (failure_message e)])
                | (Inr u', evs'') \<Rightarrow> (True, evs @ evs' @ evs''))))"

definition send_simple_email ::
  "email_sender \<Rightarrow> world \<Rightarrow> pystr list \<Rightarrow> pystr \<Rightarrow> pystr \<Rightarrow> bool \<times> event list" where
  "send_simple_email self w receiver_emails subject body =
     send_email self w receiver_emails subject body None"

section \<open>One document (\<open>create_email_body\<close>, \<open>process_pdf\<close>)\<close>

text \<open>
  \<open>os.path.getsize\<close> is the one call of \<open>create_email_body\<close> that can raise. The size
  is shown in KB below 1024 KB and in MB from there on.
\<close>

definition create_email_body ::
  "world \<Rightarrow> pystr \<Rightarrow> pystr \<Rightarrow> pystr \<Rightarrow> model_info option \<Rightarrow> py_exn + pystr" where
  "create_email_body w filename summary pdf_path model_info =
     (case fs_getsize w pdf_path of
        Inl e \<Rightarrow> Inl e
      | Inr nbytes \<Rightarrow>
          Inr (render_html w
                 \<lparr> bf_filename = filename,
                   bf_size = (if nbytes < 1024 * 1024 then KB nbytes else MB nbytes),
                   bf_time = clock w,
                   bf_summary = concat (map (\<lambda>c. if c = 10 then lit ''<br>'' else [c]) summary),
                   bf_model_info = model_info \<rparr>))"

text \<open>
  \<open>process_pdf\<close> has no \<open>try\<close> of its own: what the banner line, the subject template,
  \<open>create_email_body\<close> or the line with the summary raises leaves it (\<open>Inl\<close>).
  \<open>deliver\<close> is the test \<open>send_email and self.email_sender and self.receiver_emails\<close>.
\<close>

definition deliver :: "summarizer \<Rightarrow> bool \<Rightarrow> email_sender option" where
  "deliver self send_email_flag =
     (case sm_email_sender self of
        None \<Rightarrow> None
      | Some sender \<Rightarrow>
          if send_email_flag \<and> sm_receiver_emails self \<noteq> [] then Some sender else None)"

definition process_pdf ::
  "summarizer \<Rightarrow> world \<Rightarrow> pystr \<Rightarrow> bool \<Rightarrow> (py_exn + bool) \<times> event list" where
  "process_pdf self w pdf_path send_email_flag =
     (let filename = basename pdf_path;
          banner = [EvPrint (MsgProcessing filename)]
      in if \<not> printable w filename then (Inl UnicodeEncodeError, [])
         else
           (case extract_text_from_pdf w pdf_path default_max_pages of
              (text, evs1) \<Rightarrow>
                if text = [] then (Inr False, banner @ evs1 @ [EvPrint MsgExtractFailed])
                else
                  (case summarize_text self w text filename of
                     (None, evs2) \<Rightarrow>
                       (Inr False, banner @ evs1 @ evs2 @ [EvPrint MsgSummarizeFailed])
                   | (Some (summary, model_info), evs2) \<Rightarrow>
                       (case deliver self send_email_flag of
                          Some sender \<Rightarrow>
                            (case py_format (format_rich w) (sm_subject_template self)
                                    filename of
                               Inl e \<Rightarrow> (Inl e, banner @ evs1 @ evs2)
                             | Inr subject \<Rightarrow>
                                 (case create_email_body w filename summary pdf_path
                                         (Some model_info) of
                                    Inl e \<Rightarrow> (Inl e, banner @ evs1 @ evs2)
                                  | Inr body \<Rightarrow>
                                      (case send_email sender w (sm_receiver_emails self)
                                              subject body (Some [pdf_path]) of
                                         (success, evs3) \<Rightarrow>
                                           if success then
                                             (Inr True,
                                              banner @ evs1 @ evs2 @ evs3 @
                                                [EvPrint MsgSentOk])
                                           else
                                             (Inr False,
                                              banner @ evs1 @ evs2 @ evs3 @
                                                [EvPrint MsgSendFailed]))))
                        | None \<Rightarrow>
                            if \<not> printable w summary then
                              (Inl UnicodeEncodeError,
                               banner @ evs1 @ evs2 @ [EvPrint MsgSummaryDone])
                            else
                              (Inr True,
                               banner @ evs1 @ evs2 @
                                 [EvPrint MsgSummaryDone, EvPrint (MsgSummaryText summary)])))))"

section \<open>The batch (\<open>scan_and_process_pdfs\<close>)\<close>

record stats =
  st_total :: nat
  st_success :: nat
  st_failed :: nat

text \<open>The test of the scan: \<open>file.lower().endswith('.pdf')\<close>.\<close>

definition is_pdf_name :: "world \<Rightarrow> pystr \<Rightarrow> bool" where
  "is_pdf_name w file \<longleftrightarrow> endswith (py_lower (unicode_lower w) file) (lit ''.pdf'')"

text \<open>The two nested loops over \<open>os.walk\<close>.\<close>

definition discover :: "world \<Rightarrow> pystr \<Rightarrow> pystr list" where
  "discover w directory =
     concat (map (\<lambda>(root, files). map (path_join root) (filter (is_pdf_name w) files))
               (fs_walk w directory))"

text \<open>
  \<open>if max_files: pdf_files = pdf_files[:max_files]\<close>. The test is Python's truth
  value of the argument: \<open>None\<close> and \<open>0\<close> both leave the list as it is.
\<close>

definition apply_cap :: "pystr list \<Rightarrow> int option \<Rightarrow> pystr list \<times> event list" where
  "apply_cap pdf_files max_files =
     (case max_files of
        None \<Rightarrow> (pdf_files, [])
      | Some n \<Rightarrow>
          if n \<noteq> 0 then (slice_to pdf_files n, [EvPrint (MsgLimit n)]) else (pdf_files, []))"

text \<open>The \<open>try\<close> of the loop body: one outcome, one counter.\<close>

definition count_outcome :: "stats \<Rightarrow> py_exn + bool \<Rightarrow> stats \<times> event list" where
  "count_outcome st outcome =
     (case outcome of
        Inr success \<Rightarrow>
          if success then (st\<lparr>st_success := st_success st + 1\<rparr>, [])
          else (st\<lparr>st_failed := st_failed st + 1\<rparr>, [])
      | Inl e \<Rightarrow> (st\<lparr>st_failed := st_failed st + 1\<rparr>, [EvPrint (MsgProcessError e)]))"

fun process_loop ::
  "summarizer \<Rightarrow> world \<Rightarrow> bool \<Rightarrow> stats \<Rightarrow> pystr list \<Rightarrow> stats \<times> event list" where
  "process_loop self w send_email_flag st [] = (st, [])"
| "process_loop self w send_email_flag st (pdf_path # rest) =
     (case process_pdf self w pdf_path send_email_flag of
        (outcome, evs1) \<Rightarrow>
          (case count_outcome st outcome of
             (st', evs2) \<Rightarrow>
               (case process_loop self w send_email_flag st' rest of
                  (st'', evs3) \<Rightarrow>
                    (st'', evs1 @ evs2 @ (if rest \<noteq> [] then [EvSleep 2] else []) @ evs3))))"

text \<open>
  The first line printed names the directory; it is outside any \<open>try\<close>, so a directory
  name that cannot be printed ends the batch before it starts (\<open>Inl\<close>). Nothing else
  in the function can raise: what a document raises is caught in the loop.
\<close>

definition scan_and_process_pdfs ::
  "summarizer \<Rightarrow> world \<Rightarrow> pystr \<Rightarrow> bool \<Rightarrow> int option \<Rightarrow> (py_exn + stats) \<times> event list" where
  "scan_and_process_pdfs self w directory send_email_flag max_files =
     (if \<not> printable w directory then (Inl UnicodeEncodeError, [])
      else
        (let scanning = EvPrint (MsgScanning directory);
             pdf_files = discover w directory
         in if pdf_files = [] then
              (Inr \<lparr>st_total = 0, st_success = 0, st_failed = 0\<rparr>,
               [scanning, EvPrint MsgNoPdfFound])
            else
              (case apply_cap pdf_files max_files of
                 (capped, evs0) \<Rightarrow>
                   (case process_loop self w send_email_flag
                           \<lparr>st_total = length capped, st_success = 0, st_failed = 0\<rparr>
                           capped of
                      (st, evs) \<Rightarrow>
                        (Inr st,
                         scanning # evs0 @ evs @
                           [EvPrint (MsgStats (st_total st) (st_success st)
                                       (st_failed st))])))))"

section \<open>Configuration and start-up (\<open>PDFSummarizer.__init__\<close>, \<open>main\<close>)\<close>

text \<open>
  The configuration dictionary, with each key the program reads at the type the
  program uses it at; \<open>None\<close> is a key that is absent. \<open>cfg_other\<close> says that the file
  has some further section.
\<close>

record azure_cfg =
  az_api_key :: "pystr option"
  az_endpoint :: "pystr option"
  az_deployment_name :: "pystr option"
  az_api_version :: "pystr option"
  az_system_prompt :: "pystr option"

record email_cfg =
  em_smtp_server :: "pystr option"
  em_smtp_port :: "int option"
  em_sender_email :: "pystr option"
  em_sender_password :: "pystr option"
  em_use_tls :: "bool option"
  em_receiver_email :: "pystr option"
  em_subject_template :: "pystr option"

record config =
  cfg_azure_openai :: "azure_cfg option"
  cfg_email :: "email_cfg option"
  cfg_download_dir :: "pystr option"
  cfg_other :: bool

text \<open>\<open>config.get(section, {})\<close>: an absent section reads as an empty one.\<close>

definition azure_section :: "config \<Rightarrow> azure_cfg" where
  "azure_section c =
     (case cfg_azure_openai c of
        Some a \<Rightarrow> a
      | None \<Rightarrow> \<lparr>az_api_key = None, az_endpoint = None, az_deployment_name = None,
                  az_api_version = None, az_system_prompt = None\<rparr>)"

definition email_section :: "config \<Rightarrow> email_cfg" where
  "email_section c =
     (case cfg_email c of
        Some e \<Rightarrow> e
      | None \<Rightarrow> \<lparr>em_smtp_server = None, em_smtp_port = None, em_sender_email = None,
                  em_sender_password = None, em_use_tls = None, em_receiver_email = None,
                  em_subject_template = None\<rparr>)"

text \<open>The truth value of an optional string: present and not empty.\<close>

definition truthy :: "pystr option \<Rightarrow> bool" where
  "truthy v \<longleftrightarrow> (case v of None \<Rightarrow> False | Some s \<Rightarrow> s \<noteq> [])"

definition get_or :: "'a option \<Rightarrow> 'a \<Rightarrow> 'a" where
  "get_or v d = (case v of None \<Rightarrow> d | Some x \<Rightarrow> x)"

text \<open>
  \<open>__init__\<close>: the client exists when the library is there and key and endpoint are
  set, the mail sender when server, address and password are set; each one that is
  missing is reported and left \<open>None\<close>. The two constructors only store their arguments.
\<close>

definition PDFSummarizer_init :: "world \<Rightarrow> config \<Rightarrow> summarizer \<times> event list" where
  "PDFSummarizer_init w c =
     (let openai_config = azure_section c;
          email_config = email_section c;
          has_client = azure_installed w \<and> truthy (az_api_key openai_config) \<and>
                       truthy (az_endpoint openai_config);
          has_sender = truthy (em_smtp_server email_config) \<and>
                       truthy (em_sender_email email_config) \<and>
                       truthy (em_sender_password email_config)
      in (\<lparr> sm_client =
               (if has_client then
                  Some \<lparr> ac_api_key = get_or (az_api_key openai_config) [],
                         ac_api_version =
                           get_or (az_api_version openai_config) (lit ''2024-02-15-preview''),
                         ac_endpoint = get_or (az_endpoint openai_config) [] \<rparr>
                else None),
             sm_deployment_name = get_or (az_deployment_name openai_config) (lit ''gpt-4''),
             sm_system_prompt =
               get_or (az_system_prompt openai_config)
                 [20320, 26159, 19968, 20010, 19987, 19994, 30340, 25991, 26723, 24635,
                  32467, 21161, 25163, 12290],
             sm_email_sender =
               (if has_sender then
                  Some \<lparr> es_smtp_server = get_or (em_smtp_server email_config) [],
                         es_smtp_port = get_or (em_smtp_port email_config) 587,
                         es_sender_email = get_or (em_sender_email email_config) [],
                         es_sender_password = get_or (em_sender_password email_config) [],
                         es_use_tls = get_or (em_use_tls email_config) True \<rparr>
                else None),
             sm_receiver_emails =
               filter (\<lambda>email. email \<noteq> [])
                 (map py_strip (split_comma (get_or (em_receiver_email email_config) []))),
             sm_subject_template =
               get_or (em_subject_template email_config)
                 [80, 68, 70, 25991, 26723, 24635, 32467, 58, 32, 123, 102, 105, 108, 101,
                  110, 97, 109, 101, 125] \<rparr>,
          (if has_client then [] else [EvPrint MsgAzureNotConfigured]) @
          (if has_sender then [] else [EvPrint MsgEmailIncomplete])))"

text \<open>
  The command line, and the ways \<open>main\<close> can end. \<open>SingleFile\<close> holds what \<open>process_pdf\<close>
  returned or raised, \<open>Batch\<close> the counters of a finished batch, \<open>Uncaught\<close> an exception
  that a line of \<open>main\<close> or the start of the batch raised.
\<close>

record args =
  arg_directory :: "pystr option"
  arg_file :: "pystr option"
  arg_max_files :: "int option"
  arg_no_email :: bool

datatype main_result =
    NoConfig
  | NoApiKey
  | FileNotFound
  | DirNotFound
  | NoTarget
  | SingleFile "py_exn + bool"
  | Batch stats
  | Uncaught py_exn

text \<open>
  The loader (\<open>load_config\<close>: the TOML library and the search for \<open>config.toml\<close>) is
  outside the model: \<open>main\<close> takes its result, \<open>None\<close> or a dictionary. \<open>not config\<close>
  holds for \<open>None\<close> and for the empty dictionary.
\<close>

definition config_falsy :: "config \<Rightarrow> bool" where
  "config_falsy c \<longleftrightarrow>
     cfg_azure_openai c = None \<and> cfg_email c = None \<and> cfg_download_dir c = None \<and>
     \<not> cfg_other c"

text \<open>An argument that is given and not empty (\<open>if args.file:\<close>).\<close>

definition given :: "pystr option \<Rightarrow> pystr option" where
  "given v = (case v of None \<Rightarrow> None | Some s \<Rightarrow> if s = [] then None else Some s)"

text \<open>
  \<open>main\<close> once the configuration is loaded and holds an API key. \<open>run_batch\<close> is the
  call of \<open>scan_and_process_pdfs\<close>, whose result \<open>main\<close> drops and whose exception
  nothing catches.
\<close>

definition run_batch ::
  "summarizer \<Rightarrow> world \<Rightarrow> pystr \<Rightarrow> bool \<Rightarrow> int option \<Rightarrow> main_result \<times> event list" where
  "run_batch summarizer w directory send_email_flag max_files =
     (case scan_and_process_pdfs summarizer w directory send_email_flag max_files of
        (Inr st, evs) \<Rightarrow> (Batch st, evs)
      | (Inl e, evs) \<Rightarrow> (Uncaught e, evs))"

definition run_main :: "world \<Rightarrow> config \<Rightarrow> args \<Rightarrow> main_result \<times> event list" where
  "run_main w c a =
     (case PDFSummarizer_init w c of
        (summarizer, evs0) \<Rightarrow>
          (let send_email_flag = \<not> arg_no_email a
           in case given (arg_file a) of
                Some file \<Rightarrow>
                  if \<not> fs_exists w file then
                    (if \<not> printable w file then (Uncaught UnicodeEncodeError, evs0)
                     else (FileNotFound, evs0 @ [EvPrint (MsgFileNotFound file)]))
                  else
                    (case process_pdf summarizer w file send_email_flag of
                       (r, evs) \<Rightarrow> (SingleFile r, evs0 @ evs))
              | None \<Rightarrow>
                  (case given (arg_directory a) of
                     Some directory \<Rightarrow>
                       if \<not> fs_exists w directory then
                         (if \<not> printable w directory then (Uncaught UnicodeEncodeError, evs0)
                          else (DirNotFound, evs0 @ [EvPrint (MsgDirNotFound directory)]))
                       else
                         (case run_batch summarizer w directory send_email_flag
                                 (arg_max_files a) of
                            (r, evs) \<Rightarrow> (r, evs0 @ evs))
                   | None \<Rightarrow>
                       (let default_dir = get_or (cfg_download_dir c) (lit ''downloads'')
                        in if fs_exists w default_dir then
                             (if \<not> printable w default_dir then
                                (Uncaught UnicodeEncodeError, evs0)
                              else
                                (case run_batch summarizer w default_dir send_email_flag
                                        (arg_max_files a) of
                                   (r, evs) \<Rightarrow>
                                     (r, evs0 @ [EvPrint (MsgDefaultDir default_dir)] @ evs)))
                           else (NoTarget, evs0 @ [EvPrint MsgUsage])))))"

definition main :: "world \<Rightarrow> config option \<Rightarrow> args \<Rightarrow> main_result \<times> event list" where
  "main w loaded a =
     (case loaded of
        None \<Rightarrow> (NoConfig, [EvPrint MsgConfigLoadFailed])
      | Some c \<Rightarrow>
          if config_falsy c then (NoConfig, [EvPrint MsgConfigLoadFailed])
          else if \<not> truthy (az_api_key (azure_section c)) then (NoApiKey, [EvPrint MsgNoApiKey])
          else run_main w c a)"

section \<open>Reading the trace\<close>




text \<open>The first exception in a list of answers.\<close>

fun first_failure :: "py_exn option list \<Rightarrow> py_exn option" where
  "first_failure [] = None"
| "first_failure (r # rs) = (case r of Some e \<Rightarrow> Some e | None \<Rightarrow> first_failure rs)"

text \<open>
  What one path of the attachment list raises, if anything: an existing file that
  cannot be read or whose name cannot be encoded, a missing one whose warning cannot be
  printed.
\<close>

definition attach_error :: "world \<Rightarrow> pystr \<Rightarrow> py_exn option" where
  "attach_error w file_path =
     (if fs_exists w file_path then
        (case fs_read w file_path of
           Inl e \<Rightarrow> Some e
         | Inr content \<Rightarrow>
             (case url_quote (basename file_path) of Inl e \<Rightarrow> Some e | Inr q \<Rightarrow> None))
      else if printable w file_path then None
      else Some UnicodeEncodeError)"


definition missing_warnings :: "world \<Rightarrow> pystr list \<Rightarrow> event list" where
  "missing_warnings w paths =
     map (\<lambda>p. EvPrint (MsgAttachmentMissing p)) (filter (\<lambda>p. \<not> fs_exists w p) paths)"

text \<open>The banner \<open>process_pdf\<close> prints first: one per document handled.\<close>

fun is_banner :: "event \<Rightarrow> bool" where
  "is_banner (EvPrint (MsgProcessing filename)) = True"
| "is_banner ev = False"

definition banner_of :: "pystr \<Rightarrow> event" where
  "banner_of pdf_path = EvPrint (MsgProcessing (basename pdf_path))"

section \<open>The header on the wire and its decoding\<close>

text \<open>
  The functions of this section are not part of the program. They describe the reader
  of the message: how a percent-encoded UTF-8 name is decoded, and what the \<open>email\<close>
  package writes into the header for the parameters the program hands it.
\<close>

text \<open>The value of a hexadecimal digit, in either case.\<close>

definition hex_value :: "nat \<Rightarrow> nat option" where
  "hex_value c =
     (if 48 \<le> c \<and> c \<le> 57 then Some (c - 48)
      else if 65 \<le> c \<and> c \<le> 70 then Some (c - 55)
      else if 97 \<le> c \<and> c \<le> 102 then Some (c - 87)
      else None)"

text \<open>Percent-decoding of an ASCII string to bytes; \<open>None\<close> on a malformed escape.\<close>

fun pct_decode :: "pystr \<Rightarrow> pybytes option" where
  "pct_decode [] = Some []"
| "pct_decode [c] = (if c = 37 \<or> 128 \<le> c then None else Some [c])"
| "pct_decode [c, d] =
     (if c = 37 \<or> 128 \<le> c then None else map_option ((#) c) (pct_decode [d]))"
| "pct_decode (c # h # l # rest) =
     (if c = 37 then
        (case (hex_value h, hex_value l) of
           (Some a, Some b) \<Rightarrow> map_option ((#) (16 * a + b)) (pct_decode rest)
         | _ \<Rightarrow> None)
      else if 128 \<le> c then None
      else map_option ((#) c) (pct_decode (h # l # rest)))"

text \<open>Strict UTF-8 decoding: shortest form only, no surrogates, nothing past U+10FFFF.\<close>

definition continuation :: "nat \<Rightarrow> bool" where
  "continuation b \<longleftrightarrow> 128 \<le> b \<and> b < 192"

fun utf8_decode :: "pybytes \<Rightarrow> pystr option" where
  "utf8_decode [] = Some []"
| "utf8_decode (b # bs) =
     (if b < 128 then map_option ((#) b) (utf8_decode bs)
      else if 192 \<le> b \<and> b < 224 then
        (case bs of
           b1 # rest \<Rightarrow>
             (let c = (b - 192) * 64 + (b1 - 128)
              in if continuation b1 \<and> 128 \<le> c then map_option ((#) c) (utf8_decode rest)
                 else None)
         | _ \<Rightarrow> None)
      else if 224 \<le> b \<and> b < 240 then
        (case bs of
           b1 # b2 # rest \<Rightarrow>
             (let c = (b - 224) * 4096 + (b1 - 128) * 64 + (b2 - 128)
              in if continuation b1 \<and> continuation b2 \<and> 2048 \<le> c \<and>
                    \<not> (55296 \<le> c \<and> c \<le> 57343)
                 then map_option ((#) c) (utf8_decode rest)
                 else None)
         | _ \<Rightarrow> None)
      else if 240 \<le> b \<and> b < 248 then
        (case bs of
           b1 # b2 # b3 # rest \<Rightarrow>
             (let c = (b - 240) * 262144 + (b1 - 128) * 4096 + (b2 - 128) * 64 + (b3 - 128)
              in if continuation b1 \<and> continuation b2 \<and> continuation b3 \<and> 65536 \<le> c \<and>
                    c < 1114112
                 then map_option ((#) c) (utf8_decode rest)
                 else None)
         | _ \<Rightarrow> None)
      else None)"

text \<open>What a mail client does with a percent-encoded name: bytes, then UTF-8.\<close>

definition url_unquote :: "pystr \<Rightarrow> pystr option" where
  "url_unquote s = (case pct_decode s of None \<Rightarrow> None | Some bs \<Rightarrow> utf8_decode bs)"


text \<open>
  What \<open>Message.add_header\<close> of the \<open>email\<close> package writes for one parameter: the
  underscores of the keyword become hyphens; an RFC 2231 triple becomes
  \<open>name*=charset'language'value\<close> with the value percent-encoded and nothing left
  unescaped; a plain ASCII string becomes \<open>name="value"\<close> (an empty one only \<open>name\<close>),
  any other string an RFC 2231 parameter in UTF-8. The result is the name and the value
  without the surrounding quotes. The charset of a triple is taken to be UTF-8, the
  only one the program passes.
\<close>

definition format_param :: "string \<Rightarrow> header_param \<Rightarrow> py_exn + (string \<times> pystr)" where
  "format_param name v =
     (let wire_name = map (\<lambda>c. if c = CHR ''_'' then CHR ''-'' else c) name
      in case v of
           Rfc2231 charset lang s \<Rightarrow>
             (case url_quote_safe [] s of
                Inl e \<Rightarrow> Inl e
              | Inr q \<Rightarrow> Inr (wire_name @ ''*'', charset @ [39] @ lang @ [39] @ q))
         | Plain s \<Rightarrow>
             if s = [] then Inr (wire_name, [])
             else if list_all (\<lambda>c. c < 128) s then
               Inr (wire_name, concat (map (\<lambda>c. if c = 92 \<or> c = 34 then [92, c] else [c]) s))
             else
               (case url_quote_safe [] s of
                  Inl e \<Rightarrow> Inl e
                | Inr q \<Rightarrow> Inr (wire_name @ ''*'', lit ''utf-8'' @ [39, 39] @ q)))"

text \<open>
  What a mail client does with the value of an RFC 2231 parameter: drop the charset
  and the language, each up to its apostrophe, and decode the rest.
\<close>

definition rfc2231_decode :: "pystr \<Rightarrow> pystr option" where
  "rfc2231_decode v =
     (case dropWhile (\<lambda>c. c \<noteq> 39) v of
        [] \<Rightarrow> None
      | a # r \<Rightarrow>
          (case dropWhile (\<lambda>c. c \<noteq> 39) r of
             [] \<Rightarrow> None
           | b # enc \<Rightarrow> url_unquote enc))"

section \<open>Sample data\<close>

subsection \<open>A world\<close>

text \<open>
  A directory \<open>d\<close> (which cannot be read as a file) with three PDF files and a text
  file. Two of the PDF files have three
  pages (120 letters, an empty page, a short last page); \<open>c.pdf\<close> cannot be parsed.
  The backend and the relay answer every call, and the standard output is strict.
  The case table of this world is the ASCII one, which is right for every name used
  with it (CJK characters have no case).
\<close>

definition ex_text :: pystr where
  "ex_text = replicate 120 97"

definition ex_completion :: completion where
  "ex_completion = \<lparr> c_content = Some (lit ''ok''), c_model = lit ''gpt-4'',
      c_prompt_tokens = 10, c_completion_tokens = 2, c_total_tokens = 12 \<rparr>"

definition ex_world :: world where
  "ex_world =
     \<lparr> stdout_strict = True,
       pypdf2_installed = True,
       azure_installed = True,
       pdf_open = (\<lambda>p. if p = lit ''d/a.pdf'' \<or> p = lit ''d/B.PDF'' then Inr [Inr ex_text, Inr [], Inr (lit ''end'')]
                       else Inl OtherError),
       chat_create = (\<lambda>model system user. Inr ex_completion),
       fs_exists = (\<lambda>p. p \<in> set [lit ''d'', lit ''d/a.pdf'', lit ''d/B.PDF'', lit ''d/c.pdf'', lit ''d/notes.txt'']),
       fs_getsize = (\<lambda>p. Inr 2048),
       fs_read = (\<lambda>p. if p = lit ''d'' then Inl OSError else Inr [37, 80, 68, 70]),
       fs_walk = (\<lambda>d. if d = lit ''d'' then [(lit ''d'', [lit ''a.pdf'', lit ''notes.txt'', lit ''B.PDF'', lit ''c.pdf''])] else []),
       smtp_connect = (\<lambda>host port. None),
       smtp_ssl_connect = (\<lambda>host port. None),
       smtp_starttls = None,
       smtp_login = (\<lambda>user password. None),
       smtp_send_message = (\<lambda>msg. None),
       smtp_quit = None,
       clock = lit ''2025-01-01 00:00:00'',
       render_html = (\<lambda>f. bf_filename f @ bf_summary f),
       format_rich = (\<lambda>template v. Inl ValueError),
       unicode_lower = map ascii_lower \<rparr>"

definition ex_sender :: email_sender where
  "ex_sender = \<lparr> es_smtp_server = lit ''smtp.example.org'', es_smtp_port = 587,
      es_sender_email = lit ''bot@example.org'', es_sender_password = lit ''secret'',
      es_use_tls = True \<rparr>"

definition ex_summarizer :: summarizer where
  "ex_summarizer = \<lparr> sm_client = Some \<lparr> ac_api_key = lit ''key'', ac_api_version = lit ''v1'', ac_endpoint = lit ''https://x'' \<rparr>,
      sm_deployment_name = lit ''gpt-4'', sm_system_prompt = lit ''Summarise.'',
      sm_email_sender = Some ex_sender, sm_receiver_emails = [lit ''a@example.org''],
      sm_subject_template = lit ''Summary: {filename}'' \<rparr>"

subsection \<open>A message, and variations of the world and the summarizer\<close>



text \<open>
  The sample world with every path present as a file that holds the three pages; the
  same with a lenient standard output; the same with files that cannot be read.
\<close>

definition ex_world_any :: world where
  "ex_world_any =
     ex_world\<lparr> fs_exists := (\<lambda>p. True),
               pdf_open := (\<lambda>p. Inr [Inr ex_text, Inr [], Inr (lit ''end'')]),
               fs_read := (\<lambda>p. Inr [37, 80, 68, 70]) \<rparr>"

definition ex_world_lenient :: world where
  "ex_world_lenient = ex_world_any\<lparr>stdout_strict := False\<rparr>"

definition ex_world_locked :: world where
  "ex_world_locked = ex_world_any\<lparr>fs_read := (\<lambda>p. Inl OSError)\<rparr>"

text \<open>The sample summarizer with a subject template that names an unknown field.\<close>

definition ex_summarizer_badtpl :: summarizer where
  "ex_summarizer_badtpl = ex_summarizer\<lparr>sm_subject_template := lit ''Summary: {name}''\<rparr>"

subsection \<open>Configurations and a command line\<close>

text \<open>
  One configuration with the backend settings and no \<open>email\<close> section, one with the
  relay settings and no API key, and the command line \<open>-d d\<close>.
\<close>

definition ex_config_nomail :: config where
  "ex_config_nomail =
     \<lparr> cfg_azure_openai =
         Some \<lparr> az_api_key = Some (lit ''key''), az_endpoint = Some (lit ''https://x''),
                az_deployment_name = None, az_api_version = None, az_system_prompt = None \<rparr>,
       cfg_email = None, cfg_download_dir = None, cfg_other = False \<rparr>"

definition ex_config_nokey :: config where
  "ex_config_nokey =
     \<lparr> cfg_azure_openai = None,
       cfg_email =
         Some \<lparr> em_smtp_server = Some (lit ''smtp.example.org''), em_smtp_port = None,
                em_sender_email = Some (lit ''bot@example.org''),
                em_sender_password = Some (lit ''secret''), em_use_tls = None,
                em_receiver_email = Some (lit ''a@example.org''), em_subject_template = None \<rparr>,
       cfg_download_dir = None, cfg_other = False \<rparr>"

definition ex_args_dir :: args where
  "ex_args_dir = \<lparr> arg_directory = Some (lit ''d''), arg_file = None, arg_max_files = None,
                   arg_no_email = False \<rparr>"

section \<open>The counters of a batch\<close>

lemma count_outcome_step:
  "st_total (fst (count_outcome st r)) = st_total st \<and>
   ((st_success (fst (count_outcome st r)) = st_success st + 1 \<and>
     st_failed (fst (count_outcome st r)) = st_failed st) \<or>
    (st_success (fst (count_outcome st r)) = st_success st \<and>
     st_failed (fst (count_outcome st r)) = st_failed st + 1))"
  by (simp add: count_outcome_def split: sum.splits)

lemma process_loop_fst_Cons:
  "fst (process_loop self w f st (p # ps)) =
   fst (process_loop self w f (fst (count_outcome st (fst (process_pdf self w p f)))) ps)"
  by (simp split: prod.splits)

lemma process_loop_counts:
  "st_total (fst (process_loop self w f st files)) = st_total st \<and>
   st_success (fst (process_loop self w f st files)) +
     st_failed (fst (process_loop self w f st files)) =
     st_success st + st_failed st + length files \<and>
   st_success st \<le> st_success (fst (process_loop self w f st files)) \<and>
   st_failed st \<le> st_failed (fst (process_loop self w f st files))"
proof (induction files arbitrary: st)
  case Nil
  show ?case by simp
next
  case (Cons p ps)
  obtain r evs1 where pr: "process_pdf self w p f = (r, evs1)" by (cases "process_pdf self w p f")
  obtain st' evs2 where co: "count_outcome st r = (st', evs2)" by (cases "count_outcome st r")
  have step: "st_total st' = st_total st \<and>
    ((st_success st' = st_success st + 1 \<and> st_failed st' = st_failed st) \<or>
     (st_success st' = st_success st \<and> st_failed st' = st_failed st + 1))"
    using count_outcome_step [of st r] co by simp
  have unfold: "fst (process_loop self w f st (p # ps)) = fst (process_loop self w f st' ps)"
    using pr co by (simp split: prod.splits)
  show ?case unfolding unfold using Cons.IH [of st'] step by auto
qed

lemma process_loop_append:
  "fst (process_loop self w f st (xs @ ys)) =
   fst (process_loop self w f (fst (process_loop self w f st xs)) ys)"
proof (induction xs arbitrary: st)
  case Nil
  show ?case by simp
next
  case (Cons x xs)
  have "fst (process_loop self w f st ((x # xs) @ ys)) =
        fst (process_loop self w f (fst (count_outcome st (fst (process_pdf self w x f)))) (xs @ ys))"
    using process_loop_fst_Cons [of self w f st x "xs @ ys"] by simp
  then show ?case using Cons.IH process_loop_fst_Cons [of self w f st x xs] by simp
qed

text \<open>
  A batch raises only at its first line, for a directory name that cannot be printed;
  otherwise it returns the counters the loop ends with.
\<close>

lemma scan_fst:
  "fst (scan_and_process_pdfs self w directory flag max_files) =
     (if \<not> printable w directory then Inl UnicodeEncodeError
      else if discover w directory = [] then Inr \<lparr>st_total = 0, st_success = 0, st_failed = 0\<rparr>
      else Inr (fst (process_loop self w flag
                  \<lparr>st_total = length (fst (apply_cap (discover w directory) max_files)),
                     st_success = 0, st_failed = 0\<rparr>
                  (fst (apply_cap (discover w directory) max_files)))))"
  by (cases "apply_cap (discover w directory) max_files")
     (simp add: scan_and_process_pdfs_def Let_def split: prod.splits)

text \<open>
  Claim C1. Every run of \<open>scan_and_process_pdfs\<close>, whatever the directory, the cap and
  the outcomes of the documents, either returns counters with
  \<open>total = success + failed\<close>, or raises at its first line, before any document, because
  the name of the directory cannot be printed. Each pass through the loop body adds
  exactly 1 to exactly one of \<open>success\<close> and \<open>failed\<close> and leaves \<open>total\<close> alone, so along
  the batch the counters never decrease: after any prefix of the documents they are
  below their values after a longer prefix, and their sum has grown by the number of
  documents handled.
\<close>

theorem batch_stats_invariant:
  "(case fst (scan_and_process_pdfs self w directory f max_files) of
      Inr st \<Rightarrow> st_total st = st_success st + st_failed st
    | Inl e \<Rightarrow> e = UnicodeEncodeError \<and> \<not> printable w directory)
   \<and> (\<forall>st r. st_total (fst (count_outcome st r)) = st_total st \<and>
        ((st_success (fst (count_outcome st r)) = st_success st + 1 \<and>
          st_failed (fst (count_outcome st r)) = st_failed st) \<or>
         (st_success (fst (count_outcome st r)) = st_success st \<and>
          st_failed (fst (count_outcome st r)) = st_failed st + 1)))
   \<and> (\<forall>st xs ys.
        st_success (fst (process_loop self w f st xs)) \<le>
          st_success (fst (process_loop self w f st (xs @ ys))) \<and>
        st_failed (fst (process_loop self w f st xs)) \<le>
          st_failed (fst (process_loop self w f st (xs @ ys))) \<and>
        st_success (fst (process_loop self w f st xs)) +
          st_failed (fst (process_loop self w f st xs)) =
          st_success st + st_failed st + length xs)"
proof -
  let ?capped = "fst (apply_cap (discover w directory) max_files)"
  let ?st0 = "\<lparr>st_total = length ?capped, st_success = 0, st_failed = 0\<rparr>"
  have a: "(case fst (scan_and_process_pdfs self w directory f max_files) of
      Inr st \<Rightarrow> st_total st = st_success st + st_failed st
    | Inl e \<Rightarrow> e = UnicodeEncodeError \<and> \<not> printable w directory)"
    unfolding scan_fst using process_loop_counts [of self w f ?st0 ?capped] by simp
  have c: "\<And>st xs ys. st_success (fst (process_loop self w f st xs)) \<le>
          st_success (fst (process_loop self w f st (xs @ ys))) \<and>
        st_failed (fst (process_loop self w f st xs)) \<le>
          st_failed (fst (process_loop self w f st (xs @ ys)))"
    unfolding process_loop_append using process_loop_counts by blast
  show ?thesis using a count_outcome_step c process_loop_counts by blast
qed

section \<open>Text extraction\<close>

lemma read_pages_ok:
  "list_all (\<lambda>p. \<not> isl p) pages \<Longrightarrow>
   read_pages acc pages = Inr (acc @ filter (\<lambda>t. t \<noteq> []) (map projr pages))"
  by (induction pages arbitrary: acc) (auto split: sum.splits)

lemma read_pages_raises:
  "\<not> list_all (\<lambda>p. \<not> isl p) pages \<Longrightarrow> isl (read_pages acc pages)"
  by (induction pages arbitrary: acc) (auto split: sum.splits)

text \<open>
  What extraction returns, for every path and cap: the texts of the first
  \<open>min(total_pages, cap)\<close> pages joined by a blank line, the pages without text left
  out, when the library is there, the file opens, the line that names it can be
  printed and none of those pages raises; the empty string in every other case.
\<close>

lemma extract_text_value:
  "fst (extract_text_from_pdf w path cap) =
     (if pypdf2_installed w then
        (case pdf_open w path of
           Inl e \<Rightarrow> []
         | Inr pages \<Rightarrow>
             if printable w (basename path) \<and>
                list_all (\<lambda>p. \<not> isl p) (take (nat (min (int (length pages)) cap)) pages)
             then py_join [10, 10]
                    (filter (\<lambda>t. t \<noteq> [])
                       (map projr (take (nat (min (int (length pages)) cap)) pages)))
             else [])
      else [])"
proof (cases "pypdf2_installed w")
  case False
  then show ?thesis by (simp add: extract_text_from_pdf_def)
next
  case True
  show ?thesis
  proof (cases "pdf_open w path")
    case (Inl e)
    then show ?thesis using True by (simp add: extract_text_from_pdf_def extract_body_def)
  next
    case (Inr pages)
    let ?first = "take (nat (min (int (length pages)) cap)) pages"
    show ?thesis
    proof (cases "printable w (basename path)")
      case np: False
      then show ?thesis using True Inr
        by (simp add: extract_text_from_pdf_def extract_body_def Let_def)
    next
      case pr: True
      show ?thesis
      proof (cases "list_all (\<lambda>p. \<not> isl p) ?first")
        case ok: True
        have "read_pages [] ?first = Inr (filter (\<lambda>t. t \<noteq> []) (map projr ?first))"
          using read_pages_ok [OF ok, of "[]"] by simp
        then show ?thesis using True Inr ok pr
          by (simp add: extract_text_from_pdf_def extract_body_def Let_def)
      next
        case bad: False
        obtain e where "read_pages [] ?first = Inl e"
          using read_pages_raises [OF bad, of "[]"] by (cases "read_pages [] ?first") auto
        then show ?thesis using True Inr bad pr
          by (simp add: extract_text_from_pdf_def extract_body_def Let_def)
      qed
    qed
  qed
qed

lemma extract_unprintable_name:
  "\<not> printable w (basename path) \<Longrightarrow> fst (extract_text_from_pdf w path cap) = []"
  unfolding extract_text_value by (simp split: sum.splits)


lemma ex_pdf_open_a:
  "pdf_open ex_world (lit ''d/a.pdf'') = Inr [Inr ex_text, Inr [], Inr (lit ''end'')]"
  by (simp add: ex_world_def)

lemma ex_pdf_open_B:
  "pdf_open ex_world (lit ''d/B.PDF'') = Inr [Inr ex_text, Inr [], Inr (lit ''end'')]"
  by (simp add: ex_world_def)

lemma ex_world_any_fields:
  "stdout_strict ex_world_any" "pypdf2_installed ex_world_any"
  "pdf_open ex_world_any path = Inr [Inr ex_text, Inr [], Inr (lit ''end'')]"
  "fs_exists ex_world_any path" "fs_read ex_world_any path = Inr [37, 80, 68, 70]"
  by (simp_all add: ex_world_any_def ex_world_def)

lemma ex_world_lenient_fields:
  "\<not> stdout_strict ex_world_lenient" "pypdf2_installed ex_world_lenient"
  "pdf_open ex_world_lenient path = Inr [Inr ex_text, Inr [], Inr (lit ''end'')]"
  by (simp_all add: ex_world_lenient_def ex_world_any_def ex_world_def)

lemma odd_name:
  "basename [100, 47, 56575, 46, 112, 100, 102] = [56575, 46, 112, 100, 102]"
  "\<not> encodable [56575, 46, 112, 100, 102]"
  by (simp_all add: basename_def encodable_def)

lemma three_pages_text:
  "py_join [10, 10] (filter (\<lambda>t. t \<noteq> [])
      (map projr (take (nat (min (int (length [Inr ex_text, Inr [], Inr (lit ''end'') :: py_exn + pystr])) 50))
         [Inr ex_text, Inr [], Inr (lit ''end'')]))) = ex_text @ 10 # 10 # lit ''end''"
  by (simp add: ex_text_def lit_def)

text \<open>
  Claim C9 asks that extraction return the texts of the first pages of every document
  that can be parsed. The file \<open>d/\<close>U+DCFF\<open>.pdf\<close> (a name with a byte that is not UTF-8) is
  there, opens and has three pages, two of them with text. On a strict standard
  output the line that names the file raises inside the \<open>try\<close>, and extraction returns
  the empty string; on a lenient one the same file gives its text.
\<close>

theorem unprintable_name_extracts_nothing:
  "pypdf2_installed ex_world_any
   \<and> pdf_open ex_world_any [100, 47, 56575, 46, 112, 100, 102] =
       Inr [Inr ex_text, Inr [], Inr (lit ''end'')]
   \<and> fst (extract_text_from_pdf ex_world_any [100, 47, 56575, 46, 112, 100, 102]
            default_max_pages) = []
   \<and> fst (extract_text_from_pdf ex_world_lenient [100, 47, 56575, 46, 112, 100, 102]
            default_max_pages) = ex_text @ 10 # 10 # lit ''end''"
proof -
  have a: "fst (extract_text_from_pdf ex_world_any [100, 47, 56575, 46, 112, 100, 102]
            default_max_pages) = []"
    by (rule extract_unprintable_name)
       (simp add: printable_def ex_world_any_fields odd_name)
  have p: "printable ex_world_lenient s" for s
    by (simp add: printable_def ex_world_lenient_fields)
  have b: "fst (extract_text_from_pdf ex_world_lenient [100, 47, 56575, 46, 112, 100, 102]
            default_max_pages) = ex_text @ 10 # 10 # lit ''end''"
    unfolding extract_text_value default_max_pages_def
    using three_pages_text by (simp add: ex_world_lenient_fields p)
  show ?thesis using a b by (simp add: ex_world_any_fields)
qed

section \<open>Short texts\<close>








section \<open>The mail sender\<close>








lemma attach_files_events_ok:
  "first_failure (map (attach_error w) paths) = None \<Longrightarrow>
   snd (attach_files w msg paths) = missing_warnings w paths"
proof (induction paths arbitrary: msg)
  case Nil
  show ?case by (simp add: missing_warnings_def)
next
  case (Cons p ps)
  have ok: "attach_error w p = None"
    and rest: "first_failure (map (attach_error w) ps) = None"
    using Cons.prems by (auto split: option.splits)
  show ?case
  proof (cases "fs_exists w p")
    case False
    then have pr: "printable w p" using ok by (auto simp: attach_error_def split: if_splits)
    show ?thesis using False pr Cons.IH [OF rest, of msg]
      by (cases "attach_files w msg ps") (simp add: missing_warnings_def)
  next
    case True
    obtain content q where c: "fs_read w p = Inr content"
      and q: "url_quote (basename p) = Inr q"
      using ok True by (auto simp: attach_error_def split: sum.splits)
    show ?thesis using True c q Cons.IH [OF rest]
      by (simp add: Let_def missing_warnings_def)
  qed
qed





lemma success_lines_cases:
  "success_lines w rs subject =
     (if printable w subject \<and> printable w (py_join (lit '', '') rs) then
        (Inr (), [EvPrint (MsgMailSent subject),
                  EvPrint (MsgRecipients (py_join (lit '', '') rs))])
      else (Inl UnicodeEncodeError,
            if printable w subject then [EvPrint (MsgMailSent subject)] else []))"
  by (simp add: success_lines_def)

lemma send_email_not_composed:
  assumes "fst (compose_message self w rs subject body atts) = Inl e"
  shows "send_email self w rs subject body atts =
     (False, snd (compose_message self w rs subject body atts) @ [EvPrint (failure_message e)])"
  using assms
  by (cases "compose_message self w rs subject body atts") (simp add: send_email_def)

lemma send_email_composed:
  assumes "fst (compose_message self w rs subject body atts) = Inr msg"
  shows "send_email self w rs subject body atts =
     (case fst (smtp_session self w msg) of
        Inl e \<Rightarrow> (False, snd (compose_message self w rs subject body atts) @
                        snd (smtp_session self w msg) @ [EvPrint (failure_message e)])
      | Inr u \<Rightarrow>
          if printable w subject \<and> printable w (py_join (lit '', '') rs) then
            (True, snd (compose_message self w rs subject body atts) @
                   snd (smtp_session self w msg) @
                   [EvPrint (MsgMailSent subject),
                    EvPrint (MsgRecipients (py_join (lit '', '') rs))])
          else
            (False, snd (compose_message self w rs subject body atts) @
                    snd (smtp_session self w msg) @
                    (if printable w subject then [EvPrint (MsgMailSent subject)] else []) @
                    [EvPrint (MsgSendError UnicodeEncodeError)]))"
  using assms
  by (cases "compose_message self w rs subject body atts"; cases "smtp_session self w msg")
     (auto simp: send_email_def success_lines_cases failure_message_def split: sum.splits)

text \<open>The result alone: composed, the session without an exception, the two lines printed.\<close>

lemma send_email_fst:
  "fst (send_email self w rs subject body atts) =
     (case fst (compose_message self w rs subject body atts) of
        Inl e \<Rightarrow> False
      | Inr msg \<Rightarrow>
          (case fst (smtp_session self w msg) of
             Inl e \<Rightarrow> False
           | Inr u \<Rightarrow> printable w subject \<and> printable w (py_join (lit '', '') rs)))"
proof (cases "fst (compose_message self w rs subject body atts)")
  case (Inl e)
  then show ?thesis using send_email_not_composed [OF Inl] by simp
next
  case (Inr msg)
  then show ?thesis using send_email_composed [OF Inr] by (simp split: sum.splits)
qed











text \<open>
  Claim C10. \<open>send_simple_email\<close> returns what \<open>send_email\<close> returns for the same
  recipients, subject and body with no attachments, be it \<open>None\<close> or the empty list:
  the same result and the same trace.
\<close>

theorem send_simple_email_equiv:
  "send_simple_email self w rs subject body = send_email self w rs subject body None
   \<and> send_simple_email self w rs subject body = send_email self w rs subject body (Some [])"
  by (simp add: send_simple_email_def send_email_def compose_message_def Let_def)

section \<open>Percent-encoding and its decoding\<close>

lemma hex_value_digit: "d < 16 \<Longrightarrow> hex_value (hex_digit d) = Some d"
  by (auto simp: hex_value_def hex_digit_def)

lemma always_safe_plain: "always_safe b \<Longrightarrow> b \<noteq> 37 \<and> b < 128"
  by (auto simp: always_safe_def)

lemma pct_decode_plain:
  "c \<noteq> 37 \<Longrightarrow> c < 128 \<Longrightarrow> pct_decode (c # cs) = map_option ((#) c) (pct_decode cs)"
  by (cases "(c # cs)" rule: pct_decode.cases) auto

lemma pct_decode_escape:
  "hex_value h = Some a \<Longrightarrow> hex_value l = Some b \<Longrightarrow>
   pct_decode (37 # h # l # cs) = map_option ((#) (16 * a + b)) (pct_decode cs)"
  by simp

lemma pct_decode_quote_byte:
  assumes "b < 256" "\<forall>c\<in>set safe. c \<noteq> 37 \<and> c < 128"
  shows "pct_decode (quote_byte safe b @ rest) = map_option ((#) b) (pct_decode rest)"
proof (cases "always_safe b \<or> b \<in> set safe")
  case True
  then have "b \<noteq> 37 \<and> b < 128" using assms(2) always_safe_plain by blast
  then show ?thesis using True by (simp add: quote_byte_def pct_decode_plain)
next
  case False
  have hi: "b div 16 < 16" using assms(1) by simp
  have lo: "b mod 16 < 16" by simp
  have "16 * (b div 16) + b mod 16 = b" by simp
  then show ?thesis using False pct_decode_escape [OF hex_value_digit [OF hi] hex_value_digit [OF lo], of rest]
    by (simp add: quote_byte_def)
qed

lemma pct_decode_quote_bytes:
  assumes "\<forall>b\<in>set bs. b < 256" "\<forall>c\<in>set safe. c \<noteq> 37 \<and> c < 128"
  shows "pct_decode (concat (map (quote_byte safe) bs)) = Some bs"
  using assms(1)
proof (induction bs)
  case Nil
  show ?case by simp
next
  case (Cons b bs)
  then show ?case using pct_decode_quote_byte [of b safe, OF _ assms(2)] by simp
qed

lemma quote_byte_ascii:
  assumes "b < 256" "\<forall>c\<in>set safe. c < 128"
  shows "\<forall>c\<in>set (quote_byte safe b). c < 128"
proof -
  have hi: "b div 16 < 16" using assms(1) by simp
  have lo: "b mod 16 < 16" by simp
  have "\<And>d. d < 16 \<Longrightarrow> hex_digit d < 128" by (simp add: hex_digit_def)
  then have "hex_digit (b div 16) < 128" "hex_digit (b mod 16) < 128"
    using hi lo by blast+
  then show ?thesis using assms(2) always_safe_plain [of b] by (auto simp: quote_byte_def)
qed

lemma utf8_encode_cp_bytes:
  "utf8_encode_cp c = Inr bs \<Longrightarrow> \<forall>b\<in>set bs. b < 256"
  by (auto simp: utf8_encode_cp_def split: if_splits)

lemma utf8_encode_bytes:
  "utf8_encode s = Inr bs \<Longrightarrow> \<forall>b\<in>set bs. b < 256"
proof (induction s arbitrary: bs)
  case Nil
  then show ?case by simp
next
  case (Cons c cs)
  then show ?case using utf8_encode_cp_bytes [of c]
    by (auto split: sum.splits)
qed

lemma cp3: "(c::nat) div 4096 * 4096 + c div 64 mod 64 * 64 + c mod 64 = c"
proof -
  have "c div 64 div 64 = c div 4096" by (simp add: div_mult2_eq)
  then have "c div 64 = c div 4096 * 64 + c div 64 mod 64"
    by (metis div_mult_mod_eq)
  then have "c div 64 * 64 = c div 4096 * 4096 + c div 64 mod 64 * 64" by simp
  moreover have "c = c div 64 * 64 + c mod 64" by simp
  ultimately show ?thesis by simp
qed

lemma cp4: "(c::nat) div 262144 * 262144 + c div 4096 mod 64 * 4096 + c div 64 mod 64 * 64 + c mod 64 = c"
proof -
  have "c div 4096 div 64 = c div 262144" by (simp add: div_mult2_eq)
  then have "c div 4096 = c div 262144 * 64 + c div 4096 mod 64"
    by (metis div_mult_mod_eq)
  then have "c div 4096 * 4096 = c div 262144 * 262144 + c div 4096 mod 64 * 4096" by simp
  then show ?thesis using cp3 [of c] by simp
qed


lemma decode_two:
  "a < 32 \<Longrightarrow> m < 64 \<Longrightarrow> 128 \<le> a * 64 + m \<Longrightarrow>
   utf8_decode ((192 + a) # (128 + m) # rest) = map_option ((#) (a * 64 + m)) (utf8_decode rest)"
  by (simp add: continuation_def Let_def)

lemma decode_three:
  "a < 16 \<Longrightarrow> m1 < 64 \<Longrightarrow> m2 < 64 \<Longrightarrow> 2048 \<le> a * 4096 + m1 * 64 + m2 \<Longrightarrow>
   \<not> (55296 \<le> a * 4096 + m1 * 64 + m2 \<and> a * 4096 + m1 * 64 + m2 \<le> 57343) \<Longrightarrow>
   utf8_decode ((224 + a) # (128 + m1) # (128 + m2) # rest) =
     map_option ((#) (a * 4096 + m1 * 64 + m2)) (utf8_decode rest)"
  by (simp add: continuation_def Let_def)

lemma decode_four:
  "a < 8 \<Longrightarrow> m1 < 64 \<Longrightarrow> m2 < 64 \<Longrightarrow> m3 < 64 \<Longrightarrow>
   65536 \<le> a * 262144 + m1 * 4096 + m2 * 64 + m3 \<Longrightarrow>
   a * 262144 + m1 * 4096 + m2 * 64 + m3 < 1114112 \<Longrightarrow>
   utf8_decode ((240 + a) # (128 + m1) # (128 + m2) # (128 + m3) # rest) =
     map_option ((#) (a * 262144 + m1 * 4096 + m2 * 64 + m3)) (utf8_decode rest)"
  by (simp add: continuation_def Let_def)

lemma utf8_decode_encode_cp:
  assumes "utf8_encode_cp c = Inr bs"
  shows "utf8_decode (bs @ rest) = map_option ((#) c) (utf8_decode rest)"
proof -
  consider (one) "c < 128" | (two) "128 \<le> c" "c < 2048"
    | (three) "2048 \<le> c" "c < 65536" "\<not> (55296 \<le> c \<and> c \<le> 57343)"
    | (four) "65536 \<le> c" "c < 1114112"
    using assms by (auto simp: utf8_encode_cp_def split: if_splits) 
  then show ?thesis
  proof cases
    case one
    then show ?thesis using assms by (auto simp: utf8_encode_cp_def)
  next
    case two
    have bs: "bs = [192 + c div 64, 128 + c mod 64]"
      using assms two by (auto simp: utf8_encode_cp_def)
    have a: "c div 64 < 32" using two by simp
    have m: "c mod 64 < 64" by simp
    have v: "c div 64 * 64 + c mod 64 = c" by simp
    have lo: "128 \<le> c div 64 * 64 + c mod 64" unfolding v using two by simp
    show ?thesis unfolding bs using decode_two [OF a m lo, of rest] unfolding v by simp
  next
    case three
    have bs: "bs = [224 + c div 4096, 128 + (c div 64) mod 64, 128 + c mod 64]"
      using assms three by (auto simp: utf8_encode_cp_def)
    have a: "c div 4096 < 16" using three by simp
    have m1: "c div 64 mod 64 < 64" and m2: "c mod 64 < 64" by simp_all
    have lo: "2048 \<le> c div 4096 * 4096 + c div 64 mod 64 * 64 + c mod 64"
      unfolding cp3 using three by simp
    have ns: "\<not> (55296 \<le> c div 4096 * 4096 + c div 64 mod 64 * 64 + c mod 64 \<and>
                c div 4096 * 4096 + c div 64 mod 64 * 64 + c mod 64 \<le> 57343)"
      unfolding cp3 using three by simp
    show ?thesis unfolding bs using decode_three [OF a m1 m2 lo ns, of rest] unfolding cp3 by simp
  next
    case four
    have bs: "bs = [240 + c div 262144, 128 + (c div 4096) mod 64, 128 + (c div 64) mod 64,
             128 + c mod 64]"
      using assms four by (auto simp: utf8_encode_cp_def)
    have a: "c div 262144 < 8" using four by simp
    have m1: "c div 4096 mod 64 < 64" and m2: "c div 64 mod 64 < 64" and m3: "c mod 64 < 64"
      by simp_all
    have lo: "65536 \<le> c div 262144 * 262144 + c div 4096 mod 64 * 4096 + c div 64 mod 64 * 64 + c mod 64"
      unfolding cp4 using four by simp
    have hi: "c div 262144 * 262144 + c div 4096 mod 64 * 4096 + c div 64 mod 64 * 64 + c mod 64 < 1114112"
      unfolding cp4 using four by simp
    show ?thesis unfolding bs using decode_four [OF a m1 m2 m3 lo hi, of rest] unfolding cp4 by simp
  qed
qed

lemma utf8_decode_encode:
  "utf8_encode s = Inr bs \<Longrightarrow> utf8_decode bs = Some s"
proof (induction s arbitrary: bs)
  case Nil
  then show ?case by simp
next
  case (Cons c cs)
  then obtain b1 b2 where c: "utf8_encode_cp c = Inr b1" and cs: "utf8_encode cs = Inr b2"
    and bs: "bs = b1 @ b2"
    by (auto split: sum.splits)
  show ?case unfolding bs utf8_decode_encode_cp [OF c] using Cons.IH [OF cs] by simp
qed

lemma utf8_encode_encodable:
  "encodable s \<Longrightarrow> \<exists>bs. utf8_encode s = Inr bs"
proof (induction s)
  case Nil
  show ?case by simp
next
  case (Cons c cs)
  then have "\<exists>bs. utf8_encode_cp c = Inr bs"
    by (auto simp: encodable_def utf8_encode_cp_def)
  then show ?case using Cons by (auto simp: encodable_def)
qed

lemma url_quote_safe_roundtrip:
  assumes "url_quote_safe safe s = Inr q" "\<forall>c\<in>set safe. c \<noteq> 37 \<and> c < 128"
  shows "url_unquote q = Some s \<and> list_all (\<lambda>c. c < 128) q"
proof (cases "s = []")
  case True
  then show ?thesis using assms(1) by (simp add: url_quote_safe_def url_unquote_def)
next
  case False
  then obtain bs where bs: "utf8_encode s = Inr bs" and q: "q = concat (map (quote_byte safe) bs)"
    using assms(1) by (auto simp: url_quote_safe_def split: sum.splits)
  have small: "\<forall>b\<in>set bs. b < 256" using utf8_encode_bytes [OF bs] .
  have "pct_decode q = Some bs" unfolding q using pct_decode_quote_bytes [OF small assms(2)] .
  then have a: "url_unquote q = Some s" using utf8_decode_encode [OF bs] by (simp add: url_unquote_def)
  have "\<forall>c\<in>set q. c < 128" unfolding q using quote_byte_ascii [of _ safe] small assms(2) by auto
  then show ?thesis using a by (simp add: list_all_iff)
qed

lemma url_quote_roundtrip:
  "url_quote s = Inr q \<Longrightarrow> url_unquote q = Some s \<and> list_all (\<lambda>c. c < 128) q"
  using url_quote_safe_roundtrip [of "[47]" s q] by (simp add: url_quote_def)

lemma url_quote_encodable:
  "encodable s \<Longrightarrow> \<exists>q. url_quote s = Inr q"
  using utf8_encode_encodable [of s] by (auto simp: url_quote_def url_quote_safe_def)

lemma utf8_encode_Inr_encodable:
  "utf8_encode s = Inr bs \<Longrightarrow> encodable s"
proof (induction s arbitrary: bs)
  case Nil
  show ?case by (simp add: encodable_def)
next
  case (Cons c cs)
  then obtain b1 b2 where c: "utf8_encode_cp c = Inr b1" and cs: "utf8_encode cs = Inr b2"
    by (auto split: sum.splits)
  have "c < 1114112 \<and> \<not> (55296 \<le> c \<and> c \<le> 57343)"
    using c by (auto simp: utf8_encode_cp_def split: if_splits)
  then show ?case using Cons.IH [OF cs] by (simp add: encodable_def)
qed

lemma url_quote_safe_iff_encodable:
  "encodable s \<longleftrightarrow> \<not> isl (url_quote_safe safe s)"
proof (cases "s = []")
  case True
  then show ?thesis by (simp add: url_quote_safe_def encodable_def)
next
  case False
  show ?thesis
  proof (cases "utf8_encode s")
    case (Inl e)
    then have "\<not> encodable s" using utf8_encode_encodable [of s] by auto
    then show ?thesis using False Inl by (simp add: url_quote_safe_def)
  next
    case (Inr bs)
    then show ?thesis using False utf8_encode_Inr_encodable [OF Inr]
      by (simp add: url_quote_safe_def)
  qed
qed

lemma quote_byte_no_escape_needed:
  assumes "b < 256"
  shows "\<forall>c\<in>set (quote_byte [47] b). c \<noteq> 92 \<and> c \<noteq> 34"
proof -
  have hi: "b div 16 < 16" using assms by simp
  have lo: "b mod 16 < 16" by simp
  have "\<And>d. d < 16 \<Longrightarrow> hex_digit d \<noteq> 92 \<and> hex_digit d \<noteq> 34" by (simp add: hex_digit_def)
  then have "hex_digit (b div 16) \<noteq> 92 \<and> hex_digit (b div 16) \<noteq> 34"
    "hex_digit (b mod 16) \<noteq> 92 \<and> hex_digit (b mod 16) \<noteq> 34"
    using hi lo by blast+
  then show ?thesis by (auto simp: quote_byte_def always_safe_def)
qed

lemma url_quote_no_escape_needed:
  assumes "url_quote s = Inr q"
  shows "concat (map (\<lambda>c. if c = 92 \<or> c = 34 then [92, c] else [c]) q) = q"
proof -
  have plain: "\<forall>c\<in>set q. c \<noteq> 92 \<and> c \<noteq> 34"
  proof (cases "s = []")
    case True
    then show ?thesis using assms by (simp add: url_quote_def url_quote_safe_def)
  next
    case False
    then obtain bs where bs: "utf8_encode s = Inr bs" and q: "q = concat (map (quote_byte [47]) bs)"
      using assms by (auto simp: url_quote_def url_quote_safe_def split: sum.splits)
    show ?thesis unfolding q using utf8_encode_bytes [OF bs] quote_byte_no_escape_needed by auto
  qed
  have "\<And>xs. \<forall>c\<in>set xs. c \<noteq> 92 \<and> c \<noteq> (34::nat) \<Longrightarrow>
          concat (map (\<lambda>c. if c = 92 \<or> c = 34 then [92, c] else [c]) xs) = xs"
  proof -
    fix xs :: "nat list"
    show "\<forall>c\<in>set xs. c \<noteq> 92 \<and> c \<noteq> 34 \<Longrightarrow>
          concat (map (\<lambda>c. if c = 92 \<or> c = 34 then [92, c] else [c]) xs) = xs"
      by (induction xs) auto
  qed
  then show ?thesis using plain by blast
qed

lemma format_param_plain:
  assumes "url_quote s = Inr q"
  shows "format_param ''filename_ascii'' (Plain q) = Inr (''filename-ascii'', q)"
  using url_quote_roundtrip [OF assms] url_quote_no_escape_needed [OF assms]
  by (cases "q = []") (simp_all add: format_param_def Let_def)

lemma format_param_rfc2231:
  assumes "url_quote s = Inr q"
  shows "case format_param ''filename'' (Rfc2231 (lit ''utf-8'') [] s) of
           Inl e \<Rightarrow> False
         | Inr (name, v) \<Rightarrow> name = ''filename*'' \<and> rfc2231_decode v = Some s"
proof -
  have "\<not> isl (url_quote_safe [47] s)" using assms by (simp add: url_quote_def)
  then have "\<not> isl (url_quote_safe [] s)"
    using url_quote_safe_iff_encodable [of s "[47]"] url_quote_safe_iff_encodable [of s "[]"] by simp
  then obtain q' where q': "url_quote_safe [] s = Inr q'" by (cases "url_quote_safe [] s") auto
  have d: "url_unquote q' = Some s" using url_quote_safe_roundtrip [OF q'] by simp
  have "rfc2231_decode (lit ''utf-8'' @ [39] @ [] @ [39] @ q') = url_unquote q'"
    by (simp add: rfc2231_decode_def lit_def)
  then show ?thesis using q' d by (simp add: format_param_def Let_def)
qed

end
